theory Spec2Isabelle
  imports
    Complex_Main
    "HOL-Library.Sublist"
    "HOL-Library.Char_ord"
    "HOL-Library.List_Lexorder"
begin

section \<open>The git-history statistics script (generate\_stats.py)\<close>

text \<open>
  The development embeds \<^verbatim>\<open>src/generate_stats.py\<close>: the aggregation loop of
  \<^verbatim>\<open>analyze_git_history\<close>, its finalisation (the productivity score), the
  musical encoder \<^verbatim>\<open>create_musical_representation\<close> and the report renderer
  \<^verbatim>\<open>generate_summary_report\<close>.

  Conventions of the embedding.
  \<^item> A Python \<^verbatim>\<open>str\<close> is a \<^typ>\<open>string\<close> holding its UTF-8 bytes. The keywords,
    delimiters and format strings of the script are ASCII, and an ASCII byte never
    occurs inside a multi-byte UTF-8 sequence, so substring tests, splitting and
    replacing on the bytes agree with Python's on the code points.
  \<^item> A Python \<^verbatim>\<open>dict\<close> (also a \<^verbatim>\<open>defaultdict\<close>) is an association list in
    insertion order; the script depends on that order (\<^verbatim>\<open>list(d.keys())\<close>,
    the stable sorts and \<^verbatim>\<open>max\<close> of the report).
  \<^item> Python's \<^verbatim>\<open>int\<close> is \<^typ>\<open>int\<close>. A Python \<^verbatim>\<open>float\<close> is idealised to an
    exact rational (\<^typ>\<open>rat\<close>): the rounding of binary64 is not modelled.
  \<^item> The two external collaborators are parameters: the output of the git commands
    (\<^verbatim>\<open>run_git_command\<close>) and the \<^verbatim>\<open>datetime\<close> class of Python's standard
    library, given as a record of the operations the script calls.
  \<^item> The exceptions of the script's own operations are values of \<open>py_error\<close>: the
    \<^verbatim>\<open>ValueError\<close> of an unguarded \<^verbatim>\<open>fromisoformat\<close>, the \<^verbatim>\<open>ZeroDivisionError\<close>
    of a division and the \<^verbatim>\<open>KeyError\<close> of a lookup in a plain dict. The other
    operations of \<^verbatim>\<open>datetime\<close> are taken to return.
\<close>

subsection \<open>Strings\<close>

definition lower_char :: "char \<Rightarrow> char" where
  "lower_char c =
     (case map_of (zip ''ABCDEFGHIJKLMNOPQRSTUVWXYZ'' ''abcdefghijklmnopqrstuvwxyz'') c of
        Some l \<Rightarrow> l
      | None \<Rightarrow> c)"

definition upper_char :: "char \<Rightarrow> char" where
  "upper_char c =
     (case map_of (zip ''abcdefghijklmnopqrstuvwxyz'' ''ABCDEFGHIJKLMNOPQRSTUVWXYZ'') c of
        Some u \<Rightarrow> u
      | None \<Rightarrow> c)"

text \<open>
  \<^verbatim>\<open>s.lower()\<close>. Python lowers every cased code point; the model lowers the ASCII
  letters and keeps every other byte. Only two code points outside ASCII lower to
  something with an ASCII letter in it (U+0130 to \<^verbatim>\<open>i\<close> followed by U+0307, U+212A to
  \<^verbatim>\<open>k\<close>), and neither can complete one of the script's keywords, so the keyword tests
  below are not affected.
\<close>

definition lower :: "string \<Rightarrow> string" where
  "lower s = map lower_char s"

text \<open>\<^verbatim>\<open>s.capitalize()\<close>, on ASCII letters.\<close>

definition capitalize :: "string \<Rightarrow> string" where
  "capitalize s = (case s of [] \<Rightarrow> [] | c # cs \<Rightarrow> upper_char c # map lower_char cs)"

text \<open>\<^verbatim>\<open>sub in s\<close> for strings: \<open>sub\<close> occurs in \<open>s\<close> as a contiguous block.\<close>

fun contains :: "string \<Rightarrow> string \<Rightarrow> bool" where
  "contains sub [] = (sub = [])"
| "contains sub (c # cs) = (prefix sub (c # cs) \<or> contains sub cs)"

text \<open>\<^verbatim>\<open>s.split(sep)\<close> for a one-character separator: never the empty list.\<close>

fun py_split :: "char \<Rightarrow> string \<Rightarrow> string list" where
  "py_split sep [] = [[]]"
| "py_split sep (c # cs) =
     (if c = sep then [] # py_split sep cs
      else (case py_split sep cs of
              w # ws \<Rightarrow> (c # w) # ws
            | [] \<Rightarrow> [[c]]))"

text \<open>\<^verbatim>\<open>s.replace(old, new)\<close> for a one-character \<open>old\<close>: every occurrence is replaced.\<close>

definition py_replace :: "char \<Rightarrow> string \<Rightarrow> string \<Rightarrow> string" where
  "py_replace old new s = concat (map (\<lambda>c. if c = old then new else [c]) s)"

text \<open>\<^verbatim>\<open>sep.join(xs)\<close>.\<close>

fun join :: "string \<Rightarrow> string list \<Rightarrow> string" where
  "join sep [] = []"
| "join sep [x] = x"
| "join sep (x # y # xs) = x @ sep @ join sep (y # xs)"

text \<open>\<^verbatim>\<open>str(n)\<close> for an integer, and \<^verbatim>\<open>f"{n:02d}"\<close>.\<close>

definition digit_char :: "nat \<Rightarrow> char" where
  "digit_char d = ''0123456789'' ! d"

fun str_nat :: "nat \<Rightarrow> string" where
  "str_nat n = (if n < 10 then [digit_char n] else str_nat (n div 10) @ [digit_char (n mod 10)])"

declare str_nat.simps [simp del]

definition str_int :: "int \<Rightarrow> string" where
  "str_int i = (if i < 0 then CHR ''-'' # str_nat (nat (- i)) else str_nat (nat i))"

definition str_int_02d :: "int \<Rightarrow> string" where
  "str_int_02d i =
     (let s = str_int i in replicate (2 - length s) (CHR ''0'') @ s)"

subsection \<open>Dictionaries in insertion order\<close>

text \<open>\<^verbatim>\<open>d.get(k, default)\<close>; on a \<^verbatim>\<open>defaultdict\<close> also the value read by \<^verbatim>\<open>d[k]\<close>.\<close>

definition dict_get :: "('k \<times> 'v) list \<Rightarrow> 'k \<Rightarrow> 'v \<Rightarrow> 'v" where
  "dict_get d k dflt = (case map_of d k of Some v \<Rightarrow> v | None \<Rightarrow> dflt)"

text \<open>\<^verbatim>\<open>d[k] = v\<close>: an existing key keeps its position, a new key goes to the end.\<close>

fun dict_set :: "('k \<times> 'v) list \<Rightarrow> 'k \<Rightarrow> 'v \<Rightarrow> ('k \<times> 'v) list" where
  "dict_set [] k v = [(k, v)]"
| "dict_set ((k', v') # d) k v =
     (if k' = k then (k, v) # d else (k', v') # dict_set d k v)"

text \<open>\<^verbatim>\<open>d[k] += 1\<close> on a \<^verbatim>\<open>defaultdict(int)\<close>.\<close>

definition dict_incr :: "('k \<times> int) list \<Rightarrow> 'k \<Rightarrow> ('k \<times> int) list" where
  "dict_incr d k = dict_set d k (dict_get d k 0 + 1)"

definition keys :: "('k \<times> 'v) list \<Rightarrow> 'k list" where
  "keys d = map fst d"

definition dict_values :: "('k \<times> 'v) list \<Rightarrow> 'v list" where
  "dict_values d = map snd d"

subsection \<open>Data model\<close>

datatype py_error = ValueError | ZeroDivisionError | KeyError

text \<open>
  The operations of \<^verbatim>\<open>datetime\<close> that the script calls. \<open>fromisoformat\<close> is None
  where Python raises \<^verbatim>\<open>ValueError\<close>; \<open>strftime d fmt\<close> is \<^verbatim>\<open>d.strftime(fmt)\<close>;
  \<open>hour_of d\<close> is \<^verbatim>\<open>d.hour\<close>; \<open>days_between a b\<close> is \<^verbatim>\<open>(a - b).days\<close>.
\<close>

record 'dt datetime_api =
  fromisoformat :: "string \<Rightarrow> 'dt option"
  strftime :: "'dt \<Rightarrow> string \<Rightarrow> string"
  hour_of :: "'dt \<Rightarrow> int"
  days_between :: "'dt \<Rightarrow> 'dt \<Rightarrow> int"

record 'dt commit =
  hash :: string
  author :: string
  email :: string
  date :: 'dt
  message :: string
  day :: string
  hour :: int
  weekday :: string

record release =
  release_date :: string
  release_message :: string

record stats =
  total_commits :: int
  authors :: "(string \<times> int) list"
  commits_by_day :: "(string \<times> int) list"
  commits_by_hour :: "(int \<times> int) list"
  commit_types :: "(string \<times> int) list"
  file_changes :: "(string \<times> int) list"
  languages :: "(string \<times> int) list"
  release_history :: "release list"
  productivity_score :: "(string \<times> rat) list"

definition empty_stats :: stats where
  "empty_stats =
     \<lparr>total_commits = 0, authors = [], commits_by_day = [], commits_by_hour = [],
      commit_types = [], file_changes = [], languages = [], release_history = [],
      productivity_score = []\<rparr>"

subsection \<open>The aggregation loop of analyze\_git\_history\<close>

text \<open>Lines 76 to 92: the commit-type counters and the release history.\<close>

definition classify_commit :: "'dt commit \<Rightarrow> stats \<Rightarrow> stats" where
  "classify_commit c st =
     (let msg_lower = lower (message c) in
      if contains ''release'' msg_lower \<or> contains ''version'' msg_lower then
        st\<lparr>commit_types := dict_incr (commit_types st) ''release'',
           release_history := release_history st @
             [\<lparr>release_date = day c, release_message = message c\<rparr>]\<rparr>
      else if contains ''fix'' msg_lower then
        st\<lparr>commit_types := dict_incr (commit_types st) ''fix''\<rparr>
      else if contains ''add'' msg_lower \<or> contains ''implement'' msg_lower then
        st\<lparr>commit_types := dict_incr (commit_types st) ''feature''\<rparr>
      else if contains ''merge'' msg_lower then
        st\<lparr>commit_types := dict_incr (commit_types st) ''merge''\<rparr>
      else if contains ''test'' msg_lower then
        st\<lparr>commit_types := dict_incr (commit_types st) ''test''\<rparr>
      else
        st\<lparr>commit_types := dict_incr (commit_types st) ''other''\<rparr>)"

text \<open>Lines 97 to 102: one path of the changed-file list.\<close>

definition count_file :: "stats \<Rightarrow> string \<Rightarrow> stats" where
  "count_file st file =
     (if file \<noteq> [] then
        (let st1 = st\<lparr>file_changes := dict_incr (file_changes st) file\<rparr> in
         if CHR ''.'' \<in> set file then
           (let ext = last (py_split (CHR ''.'') file) in
            st1\<lparr>languages := dict_incr (languages st1) ext\<rparr>)
         else st1)
      else st)"

text \<open>Lines 70 to 102: the statistics of one parsed commit.\<close>

definition update_statistics :: "(string \<Rightarrow> string) \<Rightarrow> 'dt commit \<Rightarrow> stats \<Rightarrow> stats" where
  "update_statistics git_diff_tree c st =
     (let st1 = st\<lparr>total_commits := total_commits st + 1\<rparr>;
          st2 = st1\<lparr>authors := dict_incr (authors st1) (author c)\<rparr>;
          st3 = st2\<lparr>commits_by_day := dict_incr (commits_by_day st2) (day c)\<rparr>;
          st4 = st3\<lparr>commits_by_hour := dict_incr (commits_by_hour st3) (hour c)\<rparr>;
          st5 = classify_commit c st4;
          files_changed = git_diff_tree (hash c)
      in foldl count_file st5 (py_split (CHR ''\<newline>'') files_changed))"

text \<open>Lines 44 to 65: the commit record of a line with its parsed date.\<close>

definition commit_record :: "'dt datetime_api \<Rightarrow> string list \<Rightarrow> 'dt \<Rightarrow> 'dt commit" where
  "commit_record api parts date' =
     (let commit_hash = parts ! 0;
          author' = parts ! 1;
          email' = parts ! 2;
          message' = parts ! 4
      in \<lparr>hash = commit_hash, author = author', email = email', date = date',
          message = message', day = strftime api date' ''%Y-%m-%d'',
          hour = hour_of api date', weekday = strftime api date' ''%A''\<rparr>)"

text \<open>
  Lines 39 to 102: one line of the log. \<open>git_diff_tree h\<close> is the (stripped) output of
  \<^verbatim>\<open>git diff-tree --no-commit-id --name-only -r h\<close>. The bare \<^verbatim>\<open>except\<close> around
  \<^verbatim>\<open>fromisoformat\<close> turns its failure into \<^verbatim>\<open>continue\<close>.
\<close>

definition process_line ::
  "'dt datetime_api \<Rightarrow> (string \<Rightarrow> string) \<Rightarrow> 'dt commit list \<times> stats \<Rightarrow> string \<Rightarrow>
     'dt commit list \<times> stats" where
  "process_line api git_diff_tree acc line =
     (let (commits, st) = acc in
      if line = [] then acc
      else
        (let parts = py_split (CHR ''|'') line in
         if length parts \<ge> 5 then
           (let date_str = parts ! 3 in
            case fromisoformat api (py_replace (CHR ''Z'') ''+00:00'' date_str) of
              None \<Rightarrow> acc
            | Some date' \<Rightarrow>
                (let commit = commit_record api parts date'
                 in (commits @ [commit], update_statistics git_diff_tree commit st)))
         else acc))"

definition aggregate ::
  "'dt datetime_api \<Rightarrow> (string \<Rightarrow> string) \<Rightarrow> string \<Rightarrow> 'dt commit list \<times> stats" where
  "aggregate api git_diff_tree commits_raw =
     foldl (process_line api git_diff_tree) ([], empty_stats)
       (py_split (CHR ''\<newline>'') commits_raw)"

text \<open>
  Line 110: \<^verbatim>\<open>1.0 / (1 + age_days / 30)\<close>. Python raises \<^verbatim>\<open>ZeroDivisionError\<close>
  when the denominator is zero.
\<close>

definition weight :: "int \<Rightarrow> py_error + rat" where
  "weight age_days =
     (if 1 + of_int age_days / (30::rat) = 0 then Inl ZeroDivisionError
      else Inr (1 / (1 + of_int age_days / 30)))"

text \<open>
  Lines 106 to 111: the loop over \<^verbatim>\<open>stats['commits_by_day'].items()\<close>. The call of
  \<^verbatim>\<open>fromisoformat\<close> is not guarded here: its failure leaves the function.
\<close>

fun productivity_loop ::
  "'dt datetime_api \<Rightarrow> 'dt \<Rightarrow> (string \<times> rat) list \<Rightarrow> (string \<times> int) list \<Rightarrow>
     py_error + (string \<times> rat) list" where
  "productivity_loop api today ps [] = Inr ps"
| "productivity_loop api today ps ((day', count) # rest) =
     (case fromisoformat api day' of
        None \<Rightarrow> Inl ValueError
      | Some day_date \<Rightarrow>
          (let age_days = days_between api today day_date in
           case weight age_days of
             Inl e \<Rightarrow> Inl e
           | Inr w \<Rightarrow> productivity_loop api today (dict_set ps day' (of_int count * w)) rest))"

text \<open>
  \<^verbatim>\<open>analyze_git_history\<close>: \<open>commits_raw\<close> is the output of the \<^verbatim>\<open>git log\<close>
  command and \<open>today\<close> the value of \<^verbatim>\<open>datetime.now()\<close>.
\<close>

definition analyze_git_history ::
  "'dt datetime_api \<Rightarrow> string \<Rightarrow> (string \<Rightarrow> string) \<Rightarrow> 'dt \<Rightarrow>
     py_error + ('dt commit list \<times> stats)" where
  "analyze_git_history api commits_raw git_diff_tree today =
     (let (commits, st) = aggregate api git_diff_tree commits_raw in
      case productivity_loop api today (productivity_score st) (commits_by_day st) of
        Inl e \<Rightarrow> Inl e
      | Inr ps \<Rightarrow> Inr (commits, st\<lparr>productivity_score := ps\<rparr>))"

subsection \<open>create\_musical\_representation\<close>

record music_note =
  pitch :: string
  duration :: rat
  instrument :: string
  velocity :: int
  time :: rat



definition note_map :: "(string \<times> string) list" where
  "note_map =
     [(''release'', ''C5''), (''feature'', ''A4''), (''fix'', ''F4''),
      (''merge'', ''D4''), (''test'', ''G4''), (''other'', ''C4'')]"




text \<open>Lines 158 to 170: the commit type, \<^verbatim>\<open>'other'\<close> unless a keyword is found.\<close>

definition commit_type_of :: "string \<Rightarrow> string" where
  "commit_type_of msg =
     (let msg_lower = lower msg in
      if contains ''release'' msg_lower \<or> contains ''version'' msg_lower then ''release''
      else if contains ''fix'' msg_lower then ''fix''
      else if contains ''add'' msg_lower \<or> contains ''implement'' msg_lower then ''feature''
      else if contains ''merge'' msg_lower then ''merge''
      else if contains ''test'' msg_lower then ''test''
      else ''other'')"

text \<open>
  Lines 158 to 178: the note of one commit. \<^verbatim>\<open>note_map[commit_type]\<close> raises
  \<^verbatim>\<open>KeyError\<close> on a missing key.
\<close>

definition make_note :: "(string \<times> string) list \<Rightarrow> 'dt commit \<Rightarrow> py_error + music_note" where
  "make_note author_instr commit =
     (let commit_type = commit_type_of (message commit) in
      case map_of note_map commit_type of
        None \<Rightarrow> Inl KeyError
      | Some p \<Rightarrow>
          Inr \<lparr>pitch = p,
               duration = (if commit_type = ''release'' then 1 else 1 / 2),
               instrument = dict_get author_instr (author commit) ''piano'',
               velocity = (if commit_type = ''release'' then 100 else 80),
               time = of_int (hour commit) / 24\<rparr>)"



text \<open>\<^verbatim>\<open>xs[-n:]\<close> for a positive \<open>n\<close>.\<close>

definition last_n :: "nat \<Rightarrow> 'a list \<Rightarrow> 'a list" where
  "last_n n xs = drop (length xs - n) xs"


subsection \<open>generate\_summary\_report\<close>

text \<open>
  The glyphs of the report, as the bytes of the string literals in the source file.
\<close>

definition star_glyph :: string where
  "star_glyph = [CHR 0xC3, CHR 0xA2, CHR 0xC2, CHR 0xAD]"

definition block_glyph :: string where
  "block_glyph = [CHR 0xC3, CHR 0xA2, CHR 0xE2, CHR 0x80, CHR 0x93, CHR 0xCB, CHR 0x86]"

definition dot_glyph :: string where
  "dot_glyph = [CHR 0xC3, CHR 0x82, CHR 0xC2, CHR 0xB7]"

definition brightest_glyph :: string where
  "brightest_glyph =
     [CHR 0xC3, CHR 0xB0, CHR 0xC5, CHR 0xB8, CHR 0xC5, CHR 0x92, CHR 0xC5, CHR 0xB8]"

definition recent_glyph :: string where
  "recent_glyph =
     [CHR 0xC3, CHR 0xB0, CHR 0xC5, CHR 0xB8, CHR 0xE2, CHR 0x80, CHR 0x9C, CHR 0xCB, CHR 0x86]"

definition hottest_glyph :: string where
  "hottest_glyph =
     [CHR 0xC3, CHR 0xB0, CHR 0xC5, CHR 0xB8, CHR 0xE2, CHR 0x80, CHR 0x9D, CHR 0xC2, CHR 0xA5]"

text \<open>\<^verbatim>\<open>s * n\<close> for a string: empty when \<open>n\<close> is not positive.\<close>

definition str_times :: "string \<Rightarrow> int \<Rightarrow> string" where
  "str_times s n = concat (replicate (nat n) s)"

text \<open>\<^verbatim>\<open>int(x)\<close> truncates towards zero.\<close>

definition py_int :: "rat \<Rightarrow> int" where
  "py_int q = (if q \<ge> 0 then \<lfloor>q\<rfloor> else \<lceil>q\<rceil>)"

text \<open>\<^verbatim>\<open>f"{x:.1f}"\<close>: one decimal, ties to even, on the exact value.\<close>

definition round_half_even :: "rat \<Rightarrow> int" where
  "round_half_even q =
     (let f = \<lfloor>q\<rfloor>; r = q - of_int f in
      if r < 1 / 2 then f
      else if r > 1 / 2 then f + 1
      else if even f then f else f + 1)"

definition format_1f :: "rat \<Rightarrow> string" where
  "format_1f q =
     (let n = round_half_even (\<bar>q\<bar> * 10) in
      (if q < 0 then ''-'' else []) @ str_int (n div 10) @ ''.'' @ str_int (n mod 10))"

text \<open>
  \<^verbatim>\<open>sorted(d.items(), key=lambda x: x[1], reverse=True)\<close>: a stable sort, descending
  in the count.
\<close>

definition sorted_by_count_desc :: "('k \<times> int) list \<Rightarrow> ('k \<times> int) list" where
  "sorted_by_count_desc items = sort_key (\<lambda>x. - snd x) items"

text \<open>\<^verbatim>\<open>max(items, key=lambda x: x[1])\<close> of a non-empty list: the first maximal item.\<close>

definition max_by_count :: "('k \<times> int) \<Rightarrow> ('k \<times> int) list \<Rightarrow> ('k \<times> int)" where
  "max_by_count x xs = foldl (\<lambda>best y. if snd y > snd best then y else best) x xs"

definition contributor_lines :: "stats \<Rightarrow> string list" where
  "contributor_lines st =
     map (\<lambda>(author', count).
            (let stars = str_times star_glyph (min (count div 10 + 1) 5) in
             ''  '' @ author' @ '': '' @ str_int count @ '' commits '' @ stars))
       (take 5 (sorted_by_count_desc (authors st)))"

text \<open>Lines 211 to 214; \<^verbatim>\<open>count / total_typed\<close> raises when \<open>total_typed\<close> is zero.\<close>

fun type_lines :: "int \<Rightarrow> (string \<times> int) list \<Rightarrow> py_error + string list" where
  "type_lines total_typed [] = Inr []"
| "type_lines total_typed ((ctype, count) # rest) =
     (if total_typed = 0 then Inl ZeroDivisionError
      else
        (let percentage = (of_int count / of_int total_typed) * (100::rat);
             bar = str_times block_glyph (py_int (percentage / 2));
             line = ''  '' @ capitalize ctype @ '': '' @ bar @ '' '' @ format_1f percentage @ ''%''
         in case type_lines total_typed rest of
              Inl e \<Rightarrow> Inl e
            | Inr ls \<Rightarrow> Inr (line # ls)))"

text \<open>Lines 219 to 224; \<^verbatim>\<open>count / max_commits\<close> raises when \<open>max_commits\<close> is zero.\<close>

fun hour_chart :: "(int \<times> int) list \<Rightarrow> int \<Rightarrow> int list \<Rightarrow> py_error + string list" where
  "hour_chart by_hour max_commits [] = Inr []"
| "hour_chart by_hour max_commits (hour' # hours) =
     (let count = dict_get by_hour hour' 0 in
      if max_commits = 0 then Inl ZeroDivisionError
      else
        (let height = py_int ((of_int count / of_int max_commits) * (8::rat));
             cell = (if height > 0 then str_times block_glyph height else dot_glyph)
         in case hour_chart by_hour max_commits hours of
              Inl e \<Rightarrow> Inl e
            | Inr cells \<Rightarrow> Inr (cell # cells)))"

definition hour_lines :: "stats \<Rightarrow> py_error + string list" where
  "hour_lines st =
     (let max_commits =
            (case dict_values (commits_by_hour st) of
               [] \<Rightarrow> 1
             | v # vs \<Rightarrow> foldl max v vs)
      in case hour_chart (commits_by_hour st) max_commits (map int [0..<24]) of
           Inl e \<Rightarrow> Inl e
         | Inr chart \<Rightarrow>
             Inr [''  '' @ concat (map (\<lambda>i. str_int_02d (3 * int i) @ '' '') [0..<8]),
                  ''  '' @ join ''   '' (map (\<lambda>i. chart ! (3 * i)) [0..<8])])"

definition language_lines :: "stats \<Rightarrow> string list" where
  "language_lines st =
     map (\<lambda>(lang, count). ''  .'' @ lang @ '': '' @ str_int count @ '' files touched'')
       (take 10 (sorted_by_count_desc (languages st)))"

definition release_lines :: "stats \<Rightarrow> string list" where
  "release_lines st =
     map (\<lambda>r. ''  '' @ release_date r @ '': '' @ release_message r)
       (last_n 5 (release_history st))"

text \<open>Lines 246 to 260: the three facts.\<close>

definition brightest_day_lines :: "stats \<Rightarrow> string list" where
  "brightest_day_lines st =
     (case commits_by_day st of
        [] \<Rightarrow> []
      | x # xs \<Rightarrow>
          (let best_day = max_by_count x xs in
           [''  '' @ brightest_glyph @ '' Brightest Day: '' @ fst best_day @ '' with '' @
              str_int (snd best_day) @ '' commits'']))"

definition recent_activity_line :: "stats \<Rightarrow> string" where
  "recent_activity_line st =
     (let recent_days = last_n 30 (sort (keys (commits_by_day st)));
          recent_commits = sum_list (map (\<lambda>d. dict_get (commits_by_day st) d 0) recent_days);
          avg_recent =
            (if recent_days \<noteq> [] then of_int recent_commits / of_int (int (length recent_days))
             else 0)
      in ''  '' @ recent_glyph @ '' Recent Activity: '' @ format_1f avg_recent @
           '' commits/day (last 30 days)'')"

definition hottest_file_lines :: "stats \<Rightarrow> string list" where
  "hottest_file_lines st =
     (case file_changes st of
        [] \<Rightarrow> []
      | x # xs \<Rightarrow>
          (let most_changed = max_by_count x xs in
           [''  '' @ hottest_glyph @ '' Hottest File: '' @ fst most_changed @ '' ('' @
              str_int (snd most_changed) @ '' changes)'']))"

text \<open>The list \<^verbatim>\<open>report\<close> before it is joined.\<close>

definition report_lines :: "stats \<Rightarrow> py_error + string list" where
  "report_lines st =
     (case type_lines (sum_list (dict_values (commit_types st)))
             (sorted_by_count_desc (commit_types st)) of
        Inl e \<Rightarrow> Inl e
      | Inr types \<Rightarrow>
          (case hour_lines st of
             Inl e \<Rightarrow> Inl e
           | Inr hours \<Rightarrow>
               Inr ([replicate 60 (CHR ''=''),
                     ''PARA GIT HISTORY: A COSMIC ANALYSIS'',
                     replicate 60 (CHR ''=''),
                     [],
                     ''Total Commits: '' @ str_int (total_commits st),
                     ''Active Days: '' @ str_int (int (length (commits_by_day st))),
                     ''Contributors: '' @ str_int (int (length (authors st))),
                     [],
                     ''TOP STAR GAZERS:'']
                    @ contributor_lines st
                    @ [[], ''COMMIT CONSTELLATION TYPES:'']
                    @ types
                    @ [[], ''CODING HOURS (24h UTC):'']
                    @ hours
                    @ [[], ''LANGUAGE UNIVERSE:'']
                    @ language_lines st
                    @ [[], ''RECENT STELLAR EVENTS (Releases):'']
                    @ release_lines st
                    @ [[], ''COSMIC FACTS:'']
                    @ brightest_day_lines st
                    @ [recent_activity_line st]
                    @ hottest_file_lines st
                    @ [[], replicate 60 (CHR ''='')])))"

definition generate_summary_report :: "stats \<Rightarrow> py_error + string" where
  "generate_summary_report st =
     (case report_lines st of
        Inl e \<Rightarrow> Inl e
      | Inr report \<Rightarrow> Inr (join ''\<newline>'' report))"

subsection \<open>A tabulated instance of the datetime operations\<close>

text \<open>
  The values of Python's \<^verbatim>\<open>datetime\<close> at a handful of timestamps (those of the
  end-to-end scenario of the specification among them), as a table: the day, hour,
  weekday and week label that \<^verbatim>\<open>strftime\<close> and \<^verbatim>\<open>hour\<close> give, and the minutes
  since 2024-01-01T00:00 from which the difference in whole days is computed. The
  theorems below hold for every instance of the operations; this one serves to run
  the script on concrete logs.
\<close>

record stamp =
  stamp_day :: string
  stamp_hour :: int
  stamp_weekday :: string
  stamp_week :: string
  stamp_minutes :: int

definition stamp_table :: "(string \<times> stamp) list" where
  "stamp_table =
     [(''2024-01-01T10:00:00+00:00'',
         \<lparr>stamp_day = ''2024-01-01'', stamp_hour = 10, stamp_weekday = ''Monday'',
          stamp_week = ''2024-W00'', stamp_minutes = 600\<rparr>),
      (''2024-01-01T11:00:00+00:00'',
         \<lparr>stamp_day = ''2024-01-01'', stamp_hour = 11, stamp_weekday = ''Monday'',
          stamp_week = ''2024-W00'', stamp_minutes = 660\<rparr>),
      (''2024-01-02T09:00:00+00:00'',
         \<lparr>stamp_day = ''2024-01-02'', stamp_hour = 9, stamp_weekday = ''Tuesday'',
          stamp_week = ''2024-W00'', stamp_minutes = 1980\<rparr>),
      (''2024-01-07T23:30:00+00:00'',
         \<lparr>stamp_day = ''2024-01-07'', stamp_hour = 23, stamp_weekday = ''Sunday'',
          stamp_week = ''2024-W01'', stamp_minutes = 10050\<rparr>),
      (''2024-01-01'',
         \<lparr>stamp_day = ''2024-01-01'', stamp_hour = 0, stamp_weekday = ''Monday'',
          stamp_week = ''2024-W00'', stamp_minutes = 0\<rparr>),
      (''2024-01-02'',
         \<lparr>stamp_day = ''2024-01-02'', stamp_hour = 0, stamp_weekday = ''Tuesday'',
          stamp_week = ''2024-W00'', stamp_minutes = 1440\<rparr>),
      (''2024-01-07'',
         \<lparr>stamp_day = ''2024-01-07'', stamp_hour = 0, stamp_weekday = ''Sunday'',
          stamp_week = ''2024-W01'', stamp_minutes = 8640\<rparr>)]"

definition table_api :: "stamp datetime_api" where
  "table_api =
     \<lparr>fromisoformat = map_of stamp_table,
      strftime = (\<lambda>d fmt.
         if fmt = ''%Y-%m-%d'' then stamp_day d
         else if fmt = ''%A'' then stamp_weekday d
         else if fmt = ''%Y-W%U'' then stamp_week d
         else []),
      hour_of = stamp_hour,
      days_between = (\<lambda>a b. (stamp_minutes a - stamp_minutes b) div 1440)\<rparr>"

text \<open>The log of the end-to-end scenario, and a report time: noon of 2024-01-08.\<close>

definition scenario_log :: string where
  "scenario_log =
     join ''\<newline>''
       [''abc123|Alice|a@x.com|2024-01-01T10:00:00+00:00|fix: null pointer|'',
        ''def456|Bob|b@x.com|2024-01-01T11:00:00+00:00|add: login page|'',
        ''ghi789|Alice|a@x.com|2024-01-02T09:00:00+00:00|release: v1.0|'']"

definition scenario_today :: stamp where
  "scenario_today =
     \<lparr>stamp_day = ''2024-01-08'', stamp_hour = 12, stamp_weekday = ''Monday'',
      stamp_week = ''2024-W01'', stamp_minutes = 10800\<rparr>"

subsection \<open>The specification's wording, for comparison with the code\<close>

text \<open>
  The classifier as the specification words it: an ordered list of keyword rules,
  tried in order on the lower-cased message, the first rule with a keyword that occurs
  deciding the tag, and \<^verbatim>\<open>other\<close> when no rule applies.
\<close>

definition keyword_rules :: "(string list \<times> string) list" where
  "keyword_rules =
     [([''release'', ''version''], ''release''),
      ([''fix''], ''fix''),
      ([''add'', ''implement''], ''feature''),
      ([''merge''], ''merge''),
      ([''test''], ''test'')]"

fun first_match :: "(string list \<times> string) list \<Rightarrow> string \<Rightarrow> string" where
  "first_match [] m = ''other''"
| "first_match ((kws, tag) # rules) m =
     (if list_ex (\<lambda>kw. contains kw m) kws then tag else first_match rules m)"

definition spec_classifier :: "string \<Rightarrow> string" where
  "spec_classifier msg = first_match keyword_rules (lower msg)"

text \<open>
  A line of the log that yields a commit record: not empty, at least five fields, and
  a fourth field that the library parses once \<^verbatim>\<open>Z\<close> is replaced.
\<close>

definition line_accepted :: "'dt datetime_api \<Rightarrow> string \<Rightarrow> bool" where
  "line_accepted api line =
     (line \<noteq> [] \<and> 5 \<le> length (py_split (CHR ''|'') line) \<and>
      fromisoformat api (py_replace (CHR ''Z'') ''+00:00'' (py_split (CHR ''|'') line ! 3))
        \<noteq> None)"




text \<open>The scenario has no changed files; its result, and its first commit.\<close>

definition no_files :: "string \<Rightarrow> string" where
  "no_files commit_hash = []"

definition scenario_result :: "py_error + (stamp commit list \<times> stats)" where
  "scenario_result = analyze_git_history table_api scenario_log no_files scenario_today"

definition scenario_commit :: "stamp commit" where
  "scenario_commit =
     \<lparr>hash = ''abc123'', author = ''Alice'', email = ''a@x.com'',
      date = \<lparr>stamp_day = ''2024-01-01'', stamp_hour = 10, stamp_weekday = ''Monday'',
              stamp_week = ''2024-W00'', stamp_minutes = 600\<rparr>,
      message = ''fix: null pointer'', day = ''2024-01-01'', hour = 10,
      weekday = ''Monday''\<rparr>"

text \<open>
  A log with one commit line whose date ends in \<^verbatim>\<open>Z\<close>, an empty line, a line with
  three fields and a line whose fourth field is no date.
\<close>

definition mixed_log :: string where
  "mixed_log =
     join ''\<newline>''
       [''jkl012|Carol|c@x.com|2024-01-07T23:30:00Z|merge branch|'',
        [],
        ''too|few|fields'',
        ''mno345|Dave|d@x.com|not a date|add tests|'']"

section \<open>Properties\<close>

subsection \<open>Strings and dictionaries\<close>

lemma contains_iff: "contains sub s \<longleftrightarrow> (\<exists>pre post. s = pre @ sub @ post)"
proof (induction s)
  case Nil
  then show ?case by auto
next
  case (Cons c cs)
  have "(\<exists>pre post. c # cs = pre @ sub @ post) \<longleftrightarrow>
        prefix sub (c # cs) \<or> (\<exists>pre post. cs = pre @ sub @ post)"
    by (auto simp: prefix_def Cons_eq_append_conv)
  with Cons show ?case by simp
qed

lemma map_of_dict_set: "map_of (dict_set d k v) = (map_of d)(k \<mapsto> v)"
  by (induction d) (auto simp: fun_eq_iff)

lemma keys_dict_set:
  "keys (dict_set d k v) = (if k \<in> set (keys d) then keys d else keys d @ [k])"
  by (induction d) (force simp: keys_def)+

lemma sum_values_dict_set:
  "sum_list (dict_values (dict_set d k v)) = sum_list (dict_values d) - dict_get d k 0 + (v::int)"
  by (induction d) (auto simp: dict_values_def dict_get_def)

lemma sum_values_dict_incr:
  "sum_list (dict_values (dict_incr d k)) = sum_list (dict_values d) + 1"
  by (simp add: dict_incr_def sum_values_dict_set)

lemma dict_get_dict_incr:
  "dict_get (dict_incr d k) k' 0 = (if k' = k then dict_get d k 0 + 1 else dict_get d k' 0)"
  by (simp add: dict_incr_def dict_get_def map_of_dict_set)

lemma keys_dict_incr:
  "keys (dict_incr d k) = (if k \<in> set (keys d) then keys d else keys d @ [k])"
  by (simp add: dict_incr_def keys_dict_set)

subsection \<open>The two classifications\<close>

lemma commit_types_classify_commit:
  "commit_types (classify_commit c st) =
     dict_incr (commit_types st) (commit_type_of (message c))"
  by (simp add: classify_commit_def commit_type_of_def Let_def)

lemma commit_type_of_cases:
  "commit_type_of msg \<in> {''release'', ''fix'', ''feature'', ''merge'', ''test'', ''other''}"
  by (simp add: commit_type_of_def Let_def)

lemma note_map_commit_type_of:
  "map_of note_map (commit_type_of msg) =
     Some (if commit_type_of msg = ''release'' then ''C5''
           else if commit_type_of msg = ''feature'' then ''A4''
           else if commit_type_of msg = ''fix'' then ''F4''
           else if commit_type_of msg = ''merge'' then ''D4''
           else if commit_type_of msg = ''test'' then ''G4''
           else ''C4'')"
  using commit_type_of_cases [of msg] by (auto simp: note_map_def)

lemma commit_type_of_spec: "commit_type_of msg = spec_classifier msg"
  by (simp add: commit_type_of_def spec_classifier_def keyword_rules_def Let_def)

text \<open>
  Claim C1, as the code has it. The aggregator increments the counter of exactly one
  tag for every commit, and that tag is the specification's classifier applied to the
  message: the first keyword rule, in the order release or version, fix, add or
  implement, merge, test, with a keyword occurring in the lower-cased message, and
  \<^verbatim>\<open>other\<close> when there is none. The tag is one of the six, and depends on the
  message only through its lower-cased form. A message with both \<^verbatim>\<open>release\<close> and
  \<^verbatim>\<open>fix\<close> is a release. A message with both \<^verbatim>\<open>fix\<close> and \<^verbatim>\<open>add\<close> is a fix
  provided it has neither \<^verbatim>\<open>release\<close> nor \<^verbatim>\<open>version\<close>: the first rule wins
  otherwise.
\<close>

theorem classifier_priority_order:
  fixes c :: "'dt commit"
  shows
  "commit_types (classify_commit c st) =
     dict_incr (commit_types st) (spec_classifier (message c))
   \<and> spec_classifier msg \<in> {''release'', ''fix'', ''feature'', ''merge'', ''test'', ''other''}
   \<and> (lower m1 = lower m2 \<longrightarrow> spec_classifier m1 = spec_classifier m2)
   \<and> ((\<exists>pre post. lower msg1 = pre @ ''release'' @ post) \<and>
       (\<exists>pre post. lower msg1 = pre @ ''fix'' @ post)
         \<longrightarrow> spec_classifier msg1 = ''release'')
   \<and> ((\<exists>pre post. lower msg2 = pre @ ''fix'' @ post) \<and>
       (\<exists>pre post. lower msg2 = pre @ ''add'' @ post) \<and>
       \<not> (\<exists>pre post. lower msg2 = pre @ ''release'' @ post) \<and>
       \<not> (\<exists>pre post. lower msg2 = pre @ ''version'' @ post)
         \<longrightarrow> spec_classifier msg2 = ''fix'')"
proof -
  have a: "commit_types (classify_commit c st) =
     dict_incr (commit_types st) (spec_classifier (message c))"
    by (simp add: commit_types_classify_commit commit_type_of_spec)
  have b: "spec_classifier msg \<in> {''release'', ''fix'', ''feature'', ''merge'', ''test'', ''other''}"
    using commit_type_of_cases [of msg] by (simp only: commit_type_of_spec)
  have c: "lower m1 = lower m2 \<longrightarrow> spec_classifier m1 = spec_classifier m2"
    by (simp add: spec_classifier_def)
  have d: "(\<exists>pre post. lower msg1 = pre @ ''release'' @ post) \<and>
       (\<exists>pre post. lower msg1 = pre @ ''fix'' @ post)
         \<longrightarrow> spec_classifier msg1 = ''release''"
    unfolding contains_iff [symmetric]
    by (simp add: spec_classifier_def keyword_rules_def)
  have e: "(\<exists>pre post. lower msg2 = pre @ ''fix'' @ post) \<and>
       (\<exists>pre post. lower msg2 = pre @ ''add'' @ post) \<and>
       \<not> (\<exists>pre post. lower msg2 = pre @ ''release'' @ post) \<and>
       \<not> (\<exists>pre post. lower msg2 = pre @ ''version'' @ post)
         \<longrightarrow> spec_classifier msg2 = ''fix''"
    unfolding contains_iff [symmetric]
    by (simp add: spec_classifier_def keyword_rules_def)
  from a b c d e show ?thesis by blast
qed

text \<open>
  The theorem at the two examples of the specification, \<^verbatim>\<open>release: fix typo\<close> and
  \<^verbatim>\<open>fix: add logging\<close>, and at a message in capitals.
\<close>

theorem classifier_priority_order_witness:
  "contains ''release'' (lower ''release: fix typo'')
   \<and> contains ''fix'' (lower ''release: fix typo'')
   \<and> spec_classifier ''release: fix typo'' = ''release''
   \<and> contains ''fix'' (lower ''fix: add logging'')
   \<and> contains ''add'' (lower ''fix: add logging'')
   \<and> \<not> contains ''release'' (lower ''fix: add logging'')
   \<and> \<not> contains ''version'' (lower ''fix: add logging'')
   \<and> spec_classifier ''fix: add logging'' = ''fix''
   \<and> lower ''MERGE Branch'' = lower ''merge branch''
   \<and> spec_classifier ''MERGE Branch'' = spec_classifier ''merge branch''"
proof -
  have h1: "contains ''release'' (lower ''release: fix typo'')"
    and h2: "contains ''fix'' (lower ''release: fix typo'')"
    and h3: "contains ''fix'' (lower ''fix: add logging'')"
    and h4: "contains ''add'' (lower ''fix: add logging'')"
    and h5: "\<not> contains ''release'' (lower ''fix: add logging'')"
    and h6: "\<not> contains ''version'' (lower ''fix: add logging'')"
    and h7: "lower ''MERGE Branch'' = lower ''merge branch''"
    by (simp_all add: lower_def lower_char_def)
  have t: "(contains ''release'' (lower ''release: fix typo'') \<and>
            contains ''fix'' (lower ''release: fix typo'')
              \<longrightarrow> spec_classifier ''release: fix typo'' = ''release'')
         \<and> (contains ''fix'' (lower ''fix: add logging'') \<and>
            contains ''add'' (lower ''fix: add logging'') \<and>
            \<not> contains ''release'' (lower ''fix: add logging'') \<and>
            \<not> contains ''version'' (lower ''fix: add logging'')
              \<longrightarrow> spec_classifier ''fix: add logging'' = ''fix'')
         \<and> (lower ''MERGE Branch'' = lower ''merge branch''
              \<longrightarrow> spec_classifier ''MERGE Branch'' = spec_classifier ''merge branch'')"
    using classifier_priority_order
      [of "\<lparr>hash = [], author = [], email = [], date = (), message = [], day = [],
            hour = 0, weekday = []\<rparr>"
          empty_stats "[]" "''MERGE Branch''" "''merge branch''"
          "''release: fix typo''" "''fix: add logging''"]
    unfolding contains_iff [symmetric] by blast
  from t h1 h2 h3 h4 h5 h6 h7 show ?thesis by blast
qed

text \<open>
  The claim as stated fails: \<^verbatim>\<open>fix: add version check\<close> contains \<^verbatim>\<open>fix\<close> and
  \<^verbatim>\<open>add\<close>, and the aggregator counts it as a release.
\<close>

theorem fix_and_add_not_always_fix:
  "contains ''fix'' (lower ''fix: add version check'')
   \<and> contains ''add'' (lower ''fix: add version check'')
   \<and> commit_types
       (classify_commit
          \<lparr>hash = ''abc123'', author = ''Alice'', email = ''a@x.com'', date = (),
           message = ''fix: add version check'', day = ''2024-01-01'', hour = 10,
           weekday = ''Monday''\<rparr>
          empty_stats) = [(''release'', 1)]"
  by (simp add: classify_commit_def empty_stats_def lower_def lower_char_def
      dict_incr_def dict_get_def)

subsection \<open>The aggregation loop\<close>

lemma foldl_invariant:
  assumes "P a" and "\<And>acc x. P acc \<Longrightarrow> P (f acc x)"
  shows "P (foldl f a xs)"
  using assms(1) by (induction xs arbitrary: a) (simp_all add: assms(2))

lemma count_file_fields:
  "total_commits (count_file st f) = total_commits st"
  "commit_types (count_file st f) = commit_types st"
  "authors (count_file st f) = authors st"
  "commits_by_day (count_file st f) = commits_by_day st"
  "commits_by_hour (count_file st f) = commits_by_hour st"
  "release_history (count_file st f) = release_history st"
  by (simp_all add: count_file_def Let_def)

lemma foldl_count_file_fields:
  "total_commits (foldl count_file st fs) = total_commits st"
  "commit_types (foldl count_file st fs) = commit_types st"
  "authors (foldl count_file st fs) = authors st"
  "commits_by_day (foldl count_file st fs) = commits_by_day st"
  "commits_by_hour (foldl count_file st fs) = commits_by_hour st"
  "release_history (foldl count_file st fs) = release_history st"
  by (induction fs arbitrary: st) (simp_all add: count_file_fields)

lemma classify_commit_fields:
  "total_commits (classify_commit c st) = total_commits st"
  "authors (classify_commit c st) = authors st"
  "commits_by_day (classify_commit c st) = commits_by_day st"
  "commits_by_hour (classify_commit c st) = commits_by_hour st"
  "file_changes (classify_commit c st) = file_changes st"
  "languages (classify_commit c st) = languages st"
  by (simp_all add: classify_commit_def Let_def)

lemma update_statistics_fields:
  "total_commits (update_statistics gdt c st) = total_commits st + 1"
  "commit_types (update_statistics gdt c st) =
     dict_incr (commit_types st) (commit_type_of (message c))"
  "authors (update_statistics gdt c st) = dict_incr (authors st) (author c)"
  "commits_by_day (update_statistics gdt c st) = dict_incr (commits_by_day st) (day c)"
  "commits_by_hour (update_statistics gdt c st) = dict_incr (commits_by_hour st) (hour c)"
  by (simp_all add: update_statistics_def Let_def foldl_count_file_fields
      classify_commit_fields commit_types_classify_commit)

lemma process_line_skip:
  "\<not> line_accepted api line \<Longrightarrow> process_line api gdt acc line = acc"
  by (auto simp: process_line_def line_accepted_def Let_def split: prod.splits option.splits)

lemma process_line_accept:
  assumes "line_accepted api line"
  shows "\<exists>d. fromisoformat api (py_replace (CHR ''Z'') ''+00:00'' (py_split (CHR ''|'') line ! 3)) = Some d \<and>
    process_line api gdt (cs, st) line =
      (cs @ [commit_record api (py_split (CHR ''|'') line) d],
       update_statistics gdt (commit_record api (py_split (CHR ''|'') line) d) st)"
  using assms
  by (auto simp: process_line_def line_accepted_def Let_def split: option.splits)

lemma process_line_types_sum:
  assumes "sum_list (dict_values (commit_types (snd acc))) = total_commits (snd acc) \<and>
     total_commits (snd acc) = int (length (fst acc)) \<and>
     set (keys (commit_types (snd acc))) \<subseteq>
       {''release'', ''fix'', ''feature'', ''merge'', ''test'', ''other''}"
  shows "sum_list (dict_values (commit_types (snd (process_line api gdt acc line)))) =
           total_commits (snd (process_line api gdt acc line)) \<and>
     total_commits (snd (process_line api gdt acc line)) =
           int (length (fst (process_line api gdt acc line))) \<and>
     set (keys (commit_types (snd (process_line api gdt acc line)))) \<subseteq>
       {''release'', ''fix'', ''feature'', ''merge'', ''test'', ''other''}"
proof (cases "line_accepted api line")
  case False
  then show ?thesis using assms by (simp add: process_line_skip)
next
  case True
  obtain cs st where acc: "acc = (cs, st)" by (cases acc)
  from process_line_accept [OF True, of gdt cs st] obtain c where
    pl: "process_line api gdt (cs, st) line = (cs @ [c], update_statistics gdt c st)"
    by blast
  have "set (keys (dict_incr (commit_types st) (commit_type_of (message c)))) \<subseteq>
       {''release'', ''fix'', ''feature'', ''merge'', ''test'', ''other''}"
    using assms commit_type_of_cases [of "message c"] unfolding acc keys_dict_incr
    by auto
  with assms show ?thesis
    unfolding acc pl
    by (simp add: update_statistics_fields sum_values_dict_incr)
qed

lemma aggregate_types_sum:
  "sum_list (dict_values (commit_types (snd (aggregate api gdt raw)))) =
           total_commits (snd (aggregate api gdt raw)) \<and>
     total_commits (snd (aggregate api gdt raw)) =
           int (length (fst (aggregate api gdt raw))) \<and>
     set (keys (commit_types (snd (aggregate api gdt raw)))) \<subseteq>
       {''release'', ''fix'', ''feature'', ''merge'', ''test'', ''other''}"
  unfolding aggregate_def
  by (rule foldl_invariant [where P = "\<lambda>acc. sum_list (dict_values (commit_types (snd acc))) = total_commits (snd acc) \<and>
     total_commits (snd acc) = int (length (fst acc)) \<and>
     set (keys (commit_types (snd acc))) \<subseteq>
       {''release'', ''fix'', ''feature'', ''merge'', ''test'', ''other''}"])
     (simp add: empty_stats_def dict_values_def keys_def, rule process_line_types_sum)

lemma analyze_Inr:
  assumes "analyze_git_history api raw gdt today = Inr (cs, st)"
  shows "cs = fst (aggregate api gdt raw)"
    and "\<exists>ps. st = (snd (aggregate api gdt raw))\<lparr>productivity_score := ps\<rparr> \<and>
          productivity_loop api today (productivity_score (snd (aggregate api gdt raw)))
             (commits_by_day (snd (aggregate api gdt raw))) = Inr ps"
  using assms
  by (auto simp: analyze_git_history_def split: prod.splits sum.splits)

text \<open>
  Claim C3. After the aggregation of any log the counts of \<^verbatim>\<open>commit_types\<close> sum to
  \<^verbatim>\<open>total_commits\<close>, the keys of \<^verbatim>\<open>commit_types\<close> are among the six tags, and
  \<^verbatim>\<open>total_commits\<close> is the number of commit records. Every parsed commit adds one
  to \<^verbatim>\<open>total_commits\<close> and one to the counter of its tag and of no other. The
  finalisation keeps both fields, so the sum holds for what
  \<^verbatim>\<open>analyze_git_history\<close> returns.
\<close>

theorem commit_types_sum_total:
  "sum_list (dict_values (commit_types (snd (aggregate api gdt raw)))) =
     total_commits (snd (aggregate api gdt raw))
   \<and> set (keys (commit_types (snd (aggregate api gdt raw)))) \<subseteq>
       {''release'', ''fix'', ''feature'', ''merge'', ''test'', ''other''}
   \<and> total_commits (snd (aggregate api gdt raw)) = int (length (fst (aggregate api gdt raw)))
   \<and> total_commits (update_statistics gdt c st) = total_commits st + 1
   \<and> commit_types (update_statistics gdt c st) =
       dict_incr (commit_types st) (commit_type_of (message c))
   \<and> sum_list (dict_values (commit_types (update_statistics gdt c st))) =
       sum_list (dict_values (commit_types st)) + 1
   \<and> (analyze_git_history api raw gdt today = Inr (cs, st')
        \<longrightarrow> sum_list (dict_values (commit_types st')) = total_commits st')"
proof -
  have "sum_list (dict_values (commit_types st')) = total_commits st'"
    if "analyze_git_history api raw gdt today = Inr (cs, st')"
  proof -
    from analyze_Inr(2) [OF that] obtain ps where
      "st' = (snd (aggregate api gdt raw))\<lparr>productivity_score := ps\<rparr>" by blast
    then show ?thesis using aggregate_types_sum [of api gdt raw] by simp
  qed
  then show ?thesis
    using aggregate_types_sum [of api gdt raw]
    by (simp add: update_statistics_fields sum_values_dict_incr)
qed

text \<open>The theorem at the end-to-end scenario of the specification: three commits.\<close>

theorem commit_types_sum_total_witness:
  "analyze_git_history table_api scenario_log no_files scenario_today =
     Inr (fst (projr scenario_result), snd (projr scenario_result))
   \<and> sum_list (dict_values (commit_types (snd (projr scenario_result)))) =
       total_commits (snd (projr scenario_result))
   \<and> total_commits (snd (projr scenario_result)) = 3
   \<and> commit_types (snd (projr scenario_result)) =
       [(''fix'', 1), (''feature'', 1), (''release'', 1)]"
proof -
  have "\<not> isl scenario_result" by code_simp
  then have r: "analyze_git_history table_api scenario_log no_files scenario_today =
     Inr (fst (projr scenario_result), snd (projr scenario_result))"
    by (simp add: scenario_result_def)
  have v: "total_commits (snd (projr scenario_result)) = 3"
    "commit_types (snd (projr scenario_result)) = [(''fix'', 1), (''feature'', 1), (''release'', 1)]"
    by code_simp+
  from r v commit_types_sum_total
    [of table_api no_files scenario_log scenario_commit empty_stats scenario_today
        "fst (projr scenario_result)" "snd (projr scenario_result)"]
  show ?thesis by blast
qed

subsection \<open>Notes\<close>


lemma dict_incr_inject:
  assumes "dict_incr d k = dict_incr d k'"
  shows "k = k'"
proof (rule ccontr)
  assume "k \<noteq> k'"
  then have "dict_get (dict_incr d k') k 0 = dict_get d k 0"
    by (simp add: dict_get_dict_incr)
  moreover have "dict_get (dict_incr d k) k 0 = dict_get d k 0 + 1"
    by (simp add: dict_get_dict_incr)
  ultimately show False using assms by simp
qed



text \<open>
  Claim C10. The keyword block of the aggregator and the keyword block of the encoder
  choose the same tag for every message: the counter that the aggregator increments
  for a commit is the one of the encoder's commit type, and of no other tag, and that
  commit type is the tag from which the encoder takes the pitch, the duration and the
  velocity of the commit's note.
\<close>

theorem encoder_classification_agrees:
  "commit_types (classify_commit c st) =
     dict_incr (commit_types st) (commit_type_of (message c))
   \<and> (commit_types (classify_commit c st) = dict_incr (commit_types st) tag
        \<longrightarrow> tag = commit_type_of (message c))
   \<and> map_of note_map (commit_type_of (message c)) \<noteq> None
   \<and> make_note ai c =
       Inr \<lparr>pitch = the (map_of note_map (commit_type_of (message c))),
            duration = (if commit_type_of (message c) = ''release'' then 1 else 1 / 2),
            instrument = dict_get ai (author c) ''piano'',
            velocity = (if commit_type_of (message c) = ''release'' then 100 else 80),
            time = of_int (hour c) / 24\<rparr>"
proof -
  have "tag = commit_type_of (message c)"
    if "commit_types (classify_commit c st) = dict_incr (commit_types st) tag"
    using that dict_incr_inject [of "commit_types st" tag "commit_type_of (message c)"]
    by (simp add: commit_types_classify_commit)
  then show ?thesis
    by (auto simp: commit_types_classify_commit make_note_def Let_def note_map_commit_type_of)
qed

text \<open>The theorem at the first commit of the scenario, on the empty accumulator.\<close>

theorem encoder_classification_agrees_witness:
  "commit_types (classify_commit scenario_commit empty_stats) =
     dict_incr (commit_types empty_stats) ''fix''
   \<and> ''fix'' = commit_type_of (message scenario_commit)
   \<and> pitch (projr (make_note [] scenario_commit)) = ''F4''"
proof -
  have h: "commit_types (classify_commit scenario_commit empty_stats) =
     dict_incr (commit_types empty_stats) ''fix''"
    by (simp add: classify_commit_def scenario_commit_def lower_def lower_char_def)
  from encoder_classification_agrees [of scenario_commit empty_stats "''fix''" "[]"] h
  have t: "''fix'' = commit_type_of (message scenario_commit)"
    and n: "make_note [] scenario_commit =
       Inr \<lparr>pitch = the (map_of note_map (commit_type_of (message scenario_commit))),
            duration = (if commit_type_of (message scenario_commit) = ''release'' then 1 else 1 / 2),
            instrument = dict_get [] (author scenario_commit) ''piano'',
            velocity = (if commit_type_of (message scenario_commit) = ''release'' then 100 else 80),
            time = of_int (hour scenario_commit) / 24\<rparr>"
    by blast+
  have "pitch (projr (make_note [] scenario_commit)) = ''F4''"
    unfolding n t [symmetric] by (simp add: note_map_def)
  with h t show ?thesis by blast
qed

subsection \<open>Changed files\<close>

lemma py_split_not_Nil: "py_split sep s \<noteq> []"
  by (induction s) (auto split: list.splits)

lemma py_split_no_sep: "sep \<notin> set s \<Longrightarrow> py_split sep s = [s]"
  by (induction s) auto

lemma py_split_append:
  "py_split sep (pre @ sep # ext) = py_split sep pre @ py_split sep ext"
proof (induction pre)
  case Nil
  then show ?case by simp
next
  case (Cons a pre)
  obtain w ws where "py_split sep pre = w # ws"
    using py_split_not_Nil [of sep pre] by (cases "py_split sep pre") auto
  with Cons show ?case by simp
qed

lemma last_py_split_append:
  "last (py_split sep (pre @ sep # ext)) = last (py_split sep ext)"
  by (simp add: py_split_append py_split_not_Nil)

lemma last_py_split:
  "sep \<notin> set ext \<Longrightarrow> last (py_split sep (pre @ sep # ext)) = ext"
  by (simp add: last_py_split_append py_split_no_sep)

text \<open>
  Claim C9. A non-empty path increments its entry of \<^verbatim>\<open>file_changes\<close>. A path
  without a dot changes nothing in \<^verbatim>\<open>languages\<close>. A path with a dot is some
  \<open>pre\<close>, a dot, and an \<open>ext\<close> without a dot, the text after its last dot, and
  increments \<^verbatim>\<open>languages[ext]\<close>. An empty line of the file list changes nothing, and
  the aggregator counts exactly the non-empty lines of the file list of each commit.
\<close>

theorem count_file_languages:
  "(path \<noteq> [] \<longrightarrow>
      file_changes (count_file st path) = dict_incr (file_changes st) path
      \<and> dict_get (file_changes (count_file st path)) path 0 =
          dict_get (file_changes st) path 0 + 1)
   \<and> (plain \<noteq> [] \<and> CHR ''.'' \<notin> set plain \<longrightarrow>
        file_changes (count_file st plain) = dict_incr (file_changes st) plain \<and>
        languages (count_file st plain) = languages st)
   \<and> (CHR ''.'' \<notin> set ext \<longrightarrow>
        languages (count_file st (pre @ ''.'' @ ext)) = dict_incr (languages st) ext)
   \<and> (path \<noteq> [] \<and> CHR ''.'' \<in> set path \<longrightarrow>
        (\<exists>pre ext. path = pre @ ''.'' @ ext \<and> CHR ''.'' \<notin> set ext))
   \<and> count_file st [] = st
   \<and> file_changes (update_statistics gdt c st) =
       foldl (\<lambda>d f. if f \<noteq> [] then dict_incr d f else d) (file_changes st)
         (py_split (CHR ''\<newline>'') (gdt (hash c)))"
proof -
  have a: "CHR ''.'' \<notin> set ext \<longrightarrow>
        languages (count_file st (pre @ ''.'' @ ext)) = dict_incr (languages st) ext"
    by (auto simp: count_file_def Let_def last_py_split)
  have b: "\<exists>pre ext. path = pre @ ''.'' @ ext \<and> CHR ''.'' \<notin> set ext"
    if "CHR ''.'' \<in> set path"
  proof -
    from that obtain ys zs where "rev path = ys @ CHR ''.'' # zs" "CHR ''.'' \<notin> set ys"
      by (metis split_list_first set_rev)
    then have "path = rev zs @ ''.'' @ rev ys \<and> CHR ''.'' \<notin> set (rev ys)"
      by (metis append_Cons append_Nil rev.simps(2) rev_append rev_rev_ident set_rev append_assoc)
    then show ?thesis by blast
  qed
  have c: "file_changes (foldl count_file s fs) =
       foldl (\<lambda>d f. if f \<noteq> [] then dict_incr d f else d) (file_changes s) fs" for s fs
    by (induction fs arbitrary: s) (simp_all add: count_file_def Let_def)
  show ?thesis
    using a b
    by (simp add: c update_statistics_def Let_def classify_commit_fields)
      (simp add: count_file_def Let_def dict_get_dict_incr)
qed

text \<open>The theorem at a path with two dots and at a path with none.\<close>

theorem count_file_languages_witness:
  "''src/app.test.py'' \<noteq> []
   \<and> file_changes (count_file empty_stats ''src/app.test.py'') = [(''src/app.test.py'', 1)]
   \<and> CHR ''.'' \<in> set ''src/app.test.py''
   \<and> CHR ''.'' \<notin> set ''py''
   \<and> languages (count_file empty_stats (''src/app.test'' @ ''.'' @ ''py'')) = [(''py'', 1)]
   \<and> ''Makefile'' \<noteq> [] \<and> CHR ''.'' \<notin> set ''Makefile''
   \<and> file_changes (count_file empty_stats ''Makefile'') = [(''Makefile'', 1)]
   \<and> languages (count_file empty_stats ''Makefile'') = []"
proof -
  have h: "''src/app.test.py'' \<noteq> []" "CHR ''.'' \<in> set ''src/app.test.py''"
    "CHR ''.'' \<notin> set ''py''" "''Makefile'' \<noteq> []" "CHR ''.'' \<notin> set ''Makefile''"
    by simp_all
  have e: "file_changes empty_stats = []" "languages empty_stats = []"
    "dict_incr [] ''src/app.test.py'' = [(''src/app.test.py'', 1)]"
    "dict_incr [] ''py'' = [(''py'', 1)]"
    "dict_incr [] ''Makefile'' = [(''Makefile'', 1)]"
    by (simp_all add: empty_stats_def dict_incr_def dict_get_def)
  from count_file_languages
    [where path = "''src/app.test.py''" and st = empty_stats and plain = "''Makefile''"
       and pre = "''src/app.test''" and ext = "''py''" and gdt = no_files
       and c = scenario_commit] h
  show ?thesis by (simp add: e)
qed

subsection \<open>The parser\<close>

lemma length_fst_process_line:
  "length (fst (process_line api gdt acc line)) =
     length (fst acc) + (if line_accepted api line then 1 else 0)"
proof (cases "line_accepted api line")
  case True
  obtain cs st where acc: "acc = (cs, st)" by (cases acc)
  from process_line_accept [OF True, of gdt cs st] show ?thesis
    unfolding acc using True by auto
next
  case False
  then show ?thesis by (simp add: process_line_skip)
qed

lemma length_fst_foldl_process_line:
  "length (fst (foldl (process_line api gdt) acc lines)) =
     length (fst acc) + length (filter (line_accepted api) lines)"
  by (induction lines arbitrary: acc) (simp_all add: length_fst_process_line)

lemma py_replace_append:
  "py_replace old new (s @ t) = py_replace old new s @ py_replace old new t"
  by (simp add: py_replace_def)

lemma py_replace_absent: "old \<notin> set s \<Longrightarrow> py_replace old new s = s"
  by (induction s) (auto simp: py_replace_def)

text \<open>
  Claim C4. The number of commit records is the number of lines of the log that are
  not empty, split at the bar into at least five fields, and have a fourth field that
  the library parses after the replacement of \<^verbatim>\<open>Z\<close> by \<^verbatim>\<open>+00:00\<close>. Any other
  line leaves the records and every counter as they were; such a line adds one record.
  A date that ends in its only \<^verbatim>\<open>Z\<close> is parsed as the same date ending in
  \<^verbatim>\<open>+00:00\<close>.
\<close>

theorem parser_cardinality:
  "length (fst (aggregate api gdt raw)) =
     length (filter (line_accepted api) (py_split (CHR ''\<newline>'') raw))
   \<and> (\<not> line_accepted api skipped \<longrightarrow> process_line api gdt acc skipped = acc)
   \<and> (line_accepted api line \<longrightarrow>
        length (fst (process_line api gdt acc line)) = length (fst acc) + 1)
   \<and> (CHR ''Z'' \<notin> set s \<longrightarrow>
        py_replace (CHR ''Z'') ''+00:00'' (s @ ''Z'') = s @ ''+00:00'' \<and>
        py_replace (CHR ''Z'') ''+00:00'' (s @ ''+00:00'') = s @ ''+00:00'')"
proof -
  have "py_replace (CHR ''Z'') ''+00:00'' ''Z'' = ''+00:00''"
    "py_replace (CHR ''Z'') ''+00:00'' ''+00:00'' = ''+00:00''"
    by (simp_all add: py_replace_def)
  then show ?thesis
    by (simp add: aggregate_def length_fst_foldl_process_line length_fst_process_line
        process_line_skip py_replace_append py_replace_absent)
qed

text \<open>The theorem at a log of four lines, one of which is a commit.\<close>

theorem parser_cardinality_witness:
  "length (fst (aggregate table_api no_files mixed_log)) =
     length (filter (line_accepted table_api) (py_split (CHR ''\<newline>'') mixed_log))
   \<and> length (fst (aggregate table_api no_files mixed_log)) = 1
   \<and> \<not> line_accepted table_api ''too|few|fields''
   \<and> process_line table_api no_files ([], empty_stats) ''too|few|fields'' = ([], empty_stats)
   \<and> line_accepted table_api ''jkl012|Carol|c@x.com|2024-01-07T23:30:00Z|merge branch|''
   \<and> length (fst (process_line table_api no_files ([], empty_stats)
         ''jkl012|Carol|c@x.com|2024-01-07T23:30:00Z|merge branch|'')) = 1
   \<and> CHR ''Z'' \<notin> set ''2024-01-07T23:30:00''
   \<and> py_replace (CHR ''Z'') ''+00:00'' (''2024-01-07T23:30:00'' @ ''Z'') =
       ''2024-01-07T23:30:00'' @ ''+00:00''"
proof -
  have h1: "\<not> line_accepted table_api ''too|few|fields''" by code_simp
  have h2: "line_accepted table_api ''jkl012|Carol|c@x.com|2024-01-07T23:30:00Z|merge branch|''"
    by code_simp
  have h3: "CHR ''Z'' \<notin> set ''2024-01-07T23:30:00''" by simp
  have n: "length (filter (line_accepted table_api) (py_split (CHR ''\<newline>'') mixed_log)) = 1"
    by code_simp
  from parser_cardinality
    [where api = table_api and gdt = no_files and raw = mixed_log
       and skipped = "''too|few|fields''" and acc = "([], empty_stats)"
       and line = "''jkl012|Carol|c@x.com|2024-01-07T23:30:00Z|merge branch|''"
       and s = "''2024-01-07T23:30:00''"] h1 h2 h3 n
  show ?thesis by simp
qed

subsection \<open>The productivity score\<close>

lemma weight_Inr: "weight a = Inr w \<longleftrightarrow> a \<noteq> - 30 \<and> w = 1 / (1 + of_int a / 30)"
proof -
  have "1 + rat_of_int a / 30 = 0 \<longleftrightarrow> a = - 30"
  proof
    assume "1 + rat_of_int a / 30 = 0"
    then have "rat_of_int a = - 30" by (simp add: field_simps)
    then have "rat_of_int a = rat_of_int (- 30)" by simp
    then show "a = - 30" by (simp only: of_int_eq_iff)
  qed simp
  then show ?thesis by (auto simp: weight_def)
qed

lemma weight_decreasing:
  assumes "- 30 < a" "a < b"
  shows "1 / (1 + rat_of_int b / 30) < 1 / (1 + rat_of_int a / 30)"
proof -
  have "0 < 1 + rat_of_int a / 30" using assms(1) by (simp add: field_simps)
  moreover have "1 + rat_of_int a / 30 < 1 + rat_of_int b / 30" using assms(2) by simp
  ultimately show ?thesis by (simp add: frac_less2)
qed

lemma productivity_loop_Inr:
  assumes "productivity_loop api today ps days = Inr ps'" "distinct (keys days)"
  shows "((day', count) \<in> set days \<longrightarrow>
           (\<exists>d. fromisoformat api day' = Some d \<and>
                map_of ps' day' =
                  Some (of_int count * (1 / (1 + of_int (days_between api today d) / 30)))))
         \<and> (day' \<notin> set (keys days) \<longrightarrow> map_of ps' day' = map_of ps day')"
  using assms
proof (induction days arbitrary: ps)
  case Nil
  then show ?case by simp
next
  case (Cons x rest)
  obtain k n where x: "x = (k, n)" by (cases x)
  from Cons.prems(1) obtain d w where
    d: "fromisoformat api k = Some d" and
    w: "weight (days_between api today d) = Inr w" and
    loop: "productivity_loop api today (dict_set ps k (of_int n * w)) rest = Inr ps'"
    unfolding x by (auto simp: Let_def split: option.splits sum.splits)
  from Cons.prems(2) have dist: "distinct (keys rest)" and k: "k \<notin> set (keys rest)"
    unfolding x by (simp_all add: keys_def)
  note IH = Cons.IH [OF loop dist]
  have wv: "w = 1 / (1 + of_int (days_between api today d) / 30)"
    using w by (simp add: weight_Inr)
  show ?case
  proof (intro conjI impI)
    assume mem: "(day', count) \<in> set (x # rest)"
    show "\<exists>d. fromisoformat api day' = Some d \<and>
                map_of ps' day' =
                  Some (of_int count * (1 / (1 + of_int (days_between api today d) / 30)))"
    proof (cases "(day', count) = (k, n)")
      case True
      with k IH have "map_of ps' day' = map_of (dict_set ps k (of_int n * w)) day'" by simp
      with True d wv show ?thesis by (simp add: map_of_dict_set)
    next
      case False
      with mem x have "(day', count) \<in> set rest" by auto
      with IH show ?thesis by simp
    qed
  next
    assume "day' \<notin> set (keys (x # rest))"
    then have "day' \<noteq> k" "day' \<notin> set (keys rest)" unfolding x by (simp_all add: keys_def)
    with IH show "map_of ps' day' = map_of ps day'" by (simp add: map_of_dict_set)
  qed
qed

lemma process_line_distinct_keys:
  assumes "distinct (keys (commits_by_day (snd acc))) \<and> distinct (keys (authors (snd acc)))"
  shows "distinct (keys (commits_by_day (snd (process_line api gdt acc line)))) \<and>
         distinct (keys (authors (snd (process_line api gdt acc line))))"
proof (cases "line_accepted api line")
  case False
  then show ?thesis using assms by (simp add: process_line_skip)
next
  case True
  obtain cs st where acc: "acc = (cs, st)" by (cases acc)
  from process_line_accept [OF True, of gdt cs st] obtain c where
    pl: "process_line api gdt (cs, st) line = (cs @ [c], update_statistics gdt c st)"
    by blast
  show ?thesis using assms unfolding acc pl
    by (simp add: update_statistics_fields keys_dict_incr)
qed

lemma aggregate_distinct_keys:
  "distinct (keys (commits_by_day (snd (aggregate api gdt raw)))) \<and>
   distinct (keys (authors (snd (aggregate api gdt raw))))"
  unfolding aggregate_def
  by (rule foldl_invariant [where P = "\<lambda>acc. distinct (keys (commits_by_day (snd acc))) \<and>
        distinct (keys (authors (snd acc)))"])
     (simp add: empty_stats_def keys_def, rule process_line_distinct_keys)

text \<open>
  Claim C5, as the code has it. When \<^verbatim>\<open>analyze_git_history\<close> returns, every day of
  \<^verbatim>\<open>commits_by_day\<close> parses as a date, and its productivity score is its count
  times 1 / (1 + age / 30), the age being the whole days from that date to the report
  time. The weight of age 0 is exactly 1, a weight that is computed is given by that
  formula, and the weight is strictly decreasing in the age on the ages above \<open>-30\<close>,
  all the non-negative ones among them.
\<close>

theorem productivity_score_formula:
  "(analyze_git_history api raw gdt today = Inr (cs, st) \<and> (day', count) \<in> set (commits_by_day st)
      \<longrightarrow> (\<exists>d. fromisoformat api day' = Some d \<and>
               map_of (productivity_score st) day' =
                 Some (of_int count * (1 / (1 + of_int (days_between api today d) / 30)))))
   \<and> weight 0 = Inr 1
   \<and> (weight a = Inr w \<longrightarrow> w = 1 / (1 + of_int a / 30))
   \<and> (- 30 < a \<and> a < b \<longrightarrow> (\<exists>wa wb. weight a = Inr wa \<and> weight b = Inr wb \<and> wb < wa))"
proof -
  have 1: "\<exists>d. fromisoformat api day' = Some d \<and>
               map_of (productivity_score st) day' =
                 Some (of_int count * (1 / (1 + of_int (days_between api today d) / 30)))"
    if r: "analyze_git_history api raw gdt today = Inr (cs, st)"
      and m: "(day', count) \<in> set (commits_by_day st)"
  proof -
    from analyze_Inr(2) [OF r] obtain ps where
      st: "st = (snd (aggregate api gdt raw))\<lparr>productivity_score := ps\<rparr>" and
      loop: "productivity_loop api today (productivity_score (snd (aggregate api gdt raw)))
             (commits_by_day (snd (aggregate api gdt raw))) = Inr ps"
      by blast
    from m st have "(day', count) \<in> set (commits_by_day (snd (aggregate api gdt raw)))" by simp
    with productivity_loop_Inr [OF loop, of day' count] aggregate_distinct_keys [of api gdt raw]
    show ?thesis unfolding st by simp
  qed
  have 2: "weight 0 = Inr 1" by (simp add: weight_def)
  have 3: "\<exists>wa wb. weight a = Inr wa \<and> weight b = Inr wb \<and> wb < wa" if "- 30 < a" "a < b"
    using that weight_decreasing [OF that] by (simp add: weight_Inr)
  from 1 2 3 show ?thesis by (simp add: weight_Inr)
qed

text \<open>
  The theorem at the scenario: two commits on 2024-01-01, seven whole days before the
  report time.
\<close>

theorem productivity_score_formula_witness:
  "analyze_git_history table_api scenario_log no_files scenario_today =
     Inr (fst (projr scenario_result), snd (projr scenario_result))
   \<and> (''2024-01-01'', 2) \<in> set (commits_by_day (snd (projr scenario_result)))
   \<and> map_of (productivity_score (snd (projr scenario_result))) ''2024-01-01'' = Some (60 / 37)
   \<and> weight 7 = Inr (30 / 37)
   \<and> (- 30 :: int) < 0 \<and> (0 :: int) < 7
   \<and> (\<exists>wa wb. weight 0 = Inr wa \<and> weight 7 = Inr wb \<and> wb < wa)"
proof -
  have "\<not> isl scenario_result" by code_simp
  then have r: "analyze_git_history table_api scenario_log no_files scenario_today =
     Inr (fst (projr scenario_result), snd (projr scenario_result))"
    by (simp add: scenario_result_def)
  have m: "(''2024-01-01'', 2) \<in> set (commits_by_day (snd (projr scenario_result)))"
    by code_simp
  have w: "weight 7 = Inr (30 / 37)" by (simp add: weight_def)
  have d0: "fromisoformat table_api ''2024-01-01'' =
      Some \<lparr>stamp_day = ''2024-01-01'', stamp_hour = 0, stamp_weekday = ''Monday'',
            stamp_week = ''2024-W00'', stamp_minutes = 0\<rparr>"
    by (simp add: table_api_def stamp_table_def)
  have d1: "days_between table_api scenario_today
      \<lparr>stamp_day = ''2024-01-01'', stamp_hour = 0, stamp_weekday = ''Monday'',
            stamp_week = ''2024-W00'', stamp_minutes = 0\<rparr> = 7"
    by (simp add: table_api_def scenario_today_def)
  note t = productivity_score_formula
    [where api = table_api and raw = scenario_log and gdt = no_files
       and today = scenario_today and cs = "fst (projr scenario_result)"
       and st = "snd (projr scenario_result)" and day' = "''2024-01-01''" and count = 2
       and a = 0 and b = 7 and w = 1]
  from t [THEN conjunct1] r m obtain d where
    d: "fromisoformat table_api ''2024-01-01'' = Some d" and
    s: "map_of (productivity_score (snd (projr scenario_result))) ''2024-01-01'' =
          Some (of_int 2 * (1 / (1 + of_int (days_between table_api scenario_today d) / 30)))"
    by blast
  from d d0 d1 have "days_between table_api scenario_today d = 7" by simp
  with s have v: "map_of (productivity_score (snd (projr scenario_result))) ''2024-01-01'' =
     Some (60 / 37)" by simp
  have "(- 30 :: int) < 0 \<and> (0 :: int) < 7" by simp
  with t have e: "\<exists>wa wb. weight 0 = Inr wa \<and> weight 7 = Inr wb \<and> wb < wa" by blast
  from r m v w e show ?thesis by simp
qed

text \<open>
  The claim as stated fails below \<open>-30\<close>, the age of a day more than thirty days after
  the report time: from age \<open>-31\<close> to age \<open>-29\<close> the weight rises from \<open>-30\<close> to
  \<open>30\<close>, and at age \<open>-30\<close> the division raises.
\<close>

theorem weight_not_decreasing_below:
  "weight (- 31) = Inr (- 30) \<and> weight (- 29) = Inr 30 \<and> weight (- 30) = Inl ZeroDivisionError"
  by (simp add: weight_def)

subsection \<open>Instruments\<close>











subsection \<open>Movements\<close>


















subsection \<open>The report\<close>

lemma hour_labels: "concat (map (\<lambda>i. str_int_02d (3 * int i) @ '' '') [0..<8]) =
    ''00 03 06 09 12 15 18 21 ''"
  by code_simp

lemma hour_chart_empty: "hour_chart [] 1 (map int [0..<24]) = Inr (replicate 24 dot_glyph)"
  by code_simp

lemma hour_cells_empty:
  "join ''   '' (map (\<lambda>i. replicate 24 dot_glyph ! (3 * i)) [0..<8]) =
     join ''   '' (replicate 8 dot_glyph)"
  by code_simp

lemma format_1f_zero: "format_1f 0 = ''0.0''"
  by code_simp

lemma str_int_zero: "str_int 0 = ''0''"
  by code_simp

text \<open>
  Claim C2, as the code has it. On an accumulator whose seven mappings are empty the
  renderer raises nothing and returns the lines below. The line of the brightest day
  and the line of the hottest file are absent. The line of the recent activity is
  present, as it is for every accumulator, with the average 0.0: the renderer guards
  the division and puts 0 for the average of no days.
\<close>

theorem empty_report:
  "authors st = [] \<and> commits_by_day st = [] \<and> commits_by_hour st = [] \<and>
   commit_types st = [] \<and> file_changes st = [] \<and> languages st = [] \<and>
   release_history st = []
   \<longrightarrow> report_lines st =
         Inr [replicate 60 (CHR ''=''),
              ''PARA GIT HISTORY: A COSMIC ANALYSIS'',
              replicate 60 (CHR ''=''),
              [],
              ''Total Commits: '' @ str_int (total_commits st),
              ''Active Days: 0'',
              ''Contributors: 0'',
              [],
              ''TOP STAR GAZERS:'',
              [],
              ''COMMIT CONSTELLATION TYPES:'',
              [],
              ''CODING HOURS (24h UTC):'',
              ''  00 03 06 09 12 15 18 21 '',
              ''  '' @ join ''   '' (replicate 8 dot_glyph),
              [],
              ''LANGUAGE UNIVERSE:'',
              [],
              ''RECENT STELLAR EVENTS (Releases):'',
              [],
              ''COSMIC FACTS:'',
              ''  '' @ recent_glyph @ '' Recent Activity: 0.0 commits/day (last 30 days)'',
              [],
              replicate 60 (CHR ''='')]
       \<and> (\<exists>report. generate_summary_report st = Inr report)
       \<and> brightest_day_lines st = []
       \<and> hottest_file_lines st = []
       \<and> recent_activity_line st =
           ''  '' @ recent_glyph @ '' Recent Activity: 0.0 commits/day (last 30 days)''"
proof (intro impI)
  assume e: "authors st = [] \<and> commits_by_day st = [] \<and> commits_by_hour st = [] \<and>
   commit_types st = [] \<and> file_changes st = [] \<and> languages st = [] \<and>
   release_history st = []"
  have b: "brightest_day_lines st = []" using e by (simp add: brightest_day_lines_def)
  have h: "hottest_file_lines st = []" using e by (simp add: hottest_file_lines_def)
  have r: "recent_activity_line st =
           ''  '' @ recent_glyph @ '' Recent Activity: 0.0 commits/day (last 30 days)''"
    using e by (simp add: recent_activity_line_def keys_def last_n_def format_1f_zero)
  have t: "type_lines (sum_list (dict_values (commit_types st)))
             (sorted_by_count_desc (commit_types st)) = Inr []"
    using e by (simp add: sorted_by_count_desc_def)
  have hl: "hour_lines st = Inr [''  00 03 06 09 12 15 18 21 '',
              ''  '' @ join ''   '' (replicate 8 dot_glyph)]"
    using e by (simp add: hour_lines_def dict_values_def hour_chart_empty hour_labels
        hour_cells_empty del: replicate.simps upt.simps map_upt_Suc)
  have c: "contributor_lines st = []" "language_lines st = []" "release_lines st = []"
    using e by (simp_all add: contributor_lines_def language_lines_def release_lines_def
        sorted_by_count_desc_def last_n_def)
  have rl: "report_lines st =
         Inr [replicate 60 (CHR ''=''),
              ''PARA GIT HISTORY: A COSMIC ANALYSIS'',
              replicate 60 (CHR ''=''),
              [],
              ''Total Commits: '' @ str_int (total_commits st),
              ''Active Days: 0'',
              ''Contributors: 0'',
              [],
              ''TOP STAR GAZERS:'',
              [],
              ''COMMIT CONSTELLATION TYPES:'',
              [],
              ''CODING HOURS (24h UTC):'',
              ''  00 03 06 09 12 15 18 21 '',
              ''  '' @ join ''   '' (replicate 8 dot_glyph),
              [],
              ''LANGUAGE UNIVERSE:'',
              [],
              ''RECENT STELLAR EVENTS (Releases):'',
              [],
              ''COSMIC FACTS:'',
              ''  '' @ recent_glyph @ '' Recent Activity: 0.0 commits/day (last 30 days)'',
              [],
              replicate 60 (CHR ''='')]"
    unfolding report_lines_def t hl b h r c
    using e by (simp add: str_int_zero del: replicate.simps)
  then have "\<exists>report. generate_summary_report st = Inr report"
    by (simp add: generate_summary_report_def)
  with rl b h r show "report_lines st = Inr [replicate 60 (CHR ''=''),
              ''PARA GIT HISTORY: A COSMIC ANALYSIS'',
              replicate 60 (CHR ''=''),
              [],
              ''Total Commits: '' @ str_int (total_commits st),
              ''Active Days: 0'',
              ''Contributors: 0'',
              [],
              ''TOP STAR GAZERS:'',
              [],
              ''COMMIT CONSTELLATION TYPES:'',
              [],
              ''CODING HOURS (24h UTC):'',
              ''  00 03 06 09 12 15 18 21 '',
              ''  '' @ join ''   '' (replicate 8 dot_glyph),
              [],
              ''LANGUAGE UNIVERSE:'',
              [],
              ''RECENT STELLAR EVENTS (Releases):'',
              [],
              ''COSMIC FACTS:'',
              ''  '' @ recent_glyph @ '' Recent Activity: 0.0 commits/day (last 30 days)'',
              [],
              replicate 60 (CHR ''='')]
       \<and> (\<exists>report. generate_summary_report st = Inr report)
       \<and> brightest_day_lines st = []
       \<and> hottest_file_lines st = []
       \<and> recent_activity_line st =
           ''  '' @ recent_glyph @ '' Recent Activity: 0.0 commits/day (last 30 days)''"
    by blast
qed

text \<open>The theorem at the accumulator of a log without commits.\<close>

theorem empty_report_witness:
  "authors empty_stats = [] \<and> commits_by_day empty_stats = [] \<and>
   commits_by_hour empty_stats = [] \<and> commit_types empty_stats = [] \<and>
   file_changes empty_stats = [] \<and> languages empty_stats = [] \<and>
   release_history empty_stats = []
   \<and> \<not> isl (generate_summary_report empty_stats)
   \<and> brightest_day_lines empty_stats = []
   \<and> hottest_file_lines empty_stats = []
   \<and> length (projr (report_lines empty_stats)) = 24"
proof -
  have h: "authors empty_stats = [] \<and> commits_by_day empty_stats = [] \<and>
   commits_by_hour empty_stats = [] \<and> commit_types empty_stats = [] \<and>
   file_changes empty_stats = [] \<and> languages empty_stats = [] \<and>
   release_history empty_stats = []"
    by (simp add: empty_stats_def)
  from empty_report [of empty_stats] h
  have r: "report_lines empty_stats =
         Inr [replicate 60 (CHR ''=''),
              ''PARA GIT HISTORY: A COSMIC ANALYSIS'',
              replicate 60 (CHR ''=''),
              [],
              ''Total Commits: '' @ str_int (total_commits empty_stats),
              ''Active Days: 0'',
              ''Contributors: 0'',
              [],
              ''TOP STAR GAZERS:'',
              [],
              ''COMMIT CONSTELLATION TYPES:'',
              [],
              ''CODING HOURS (24h UTC):'',
              ''  00 03 06 09 12 15 18 21 '',
              ''  '' @ join ''   '' (replicate 8 dot_glyph),
              [],
              ''LANGUAGE UNIVERSE:'',
              [],
              ''RECENT STELLAR EVENTS (Releases):'',
              [],
              ''COSMIC FACTS:'',
              ''  '' @ recent_glyph @ '' Recent Activity: 0.0 commits/day (last 30 days)'',
              [],
              replicate 60 (CHR ''='')]"
    and g: "\<exists>report. generate_summary_report empty_stats = Inr report"
    and b: "brightest_day_lines empty_stats = []" "hottest_file_lines empty_stats = []"
    by blast+
  from g have "\<not> isl (generate_summary_report empty_stats)" by auto
  moreover have "length (projr (report_lines empty_stats)) = 24" unfolding r by simp
  ultimately show ?thesis using h b by blast
qed

text \<open>
  The claim as stated fails: the report of the empty accumulator has the line of the
  recent activity.
\<close>

theorem recent_activity_line_present:
  "\<not> isl (report_lines empty_stats)
   \<and> recent_activity_line empty_stats \<in> set (projr (report_lines empty_stats))
   \<and> recent_activity_line empty_stats =
       ''  '' @ recent_glyph @ '' Recent Activity: 0.0 commits/day (last 30 days)''"
  by code_simp

end
